theory Spec2Isabelle
  imports Main
begin

section \<open>Enumerations: \<^verbatim>\<open>models/enums.py\<close> and \<^verbatim>\<open>models/user.py\<close>\<close>

text \<open>
  \<open>JobStatus\<close> is a Python \<open>str\<close>-mixin \<open>Enum\<close>; its members are listed here in the
  order of the class body. Two members are equal exactly when they are the same member.
\<close>

datatype JobStatus =
    PENDING_ASSIGNMENT
  | ASSIGNED
  | PENDING_VISIT
  | PENDING_PICKUP_FOR_LAB
  | IN_TRANSIT_TO_LAB
  | IN_TRANSIT_FROM_LAB
  | ON_SITE_DIAGNOSIS
  | LAB_DIAGNOSIS
  | ESCALATED_TO_LAB
  | PENDING_QUOTE_APPROVAL
  | REPAIR_IN_PROGRESS_LAB
  | REPAIR_IN_PROGRESS_ON_SITE
  | PENDING_RETURN_DELIVERY
  | PENDING_PAYMENT
  | COMPLETED
  | CANCELLED

text \<open>\<open>list(JobStatus)\<close>: iterating the enumeration class yields its members in definition order.\<close>

definition JobStatus_members :: "JobStatus list" where
  "JobStatus_members =
     [PENDING_ASSIGNMENT, ASSIGNED, PENDING_VISIT, PENDING_PICKUP_FOR_LAB,
      IN_TRANSIT_TO_LAB, IN_TRANSIT_FROM_LAB,
      ON_SITE_DIAGNOSIS, LAB_DIAGNOSIS, ESCALATED_TO_LAB,
      PENDING_QUOTE_APPROVAL,
      REPAIR_IN_PROGRESS_LAB, REPAIR_IN_PROGRESS_ON_SITE,
      PENDING_RETURN_DELIVERY, PENDING_PAYMENT,
      COMPLETED, CANCELLED]"

datatype UserRole = CUSTOMER | ENGINEER | ADMIN

text \<open>
  \<open>UserRole\<close> is a \<open>str\<close>-mixin \<open>Enum\<close> too: a member is a string, and comparing any
  string with a member by \<open>==\<close> compares it with the member's value. The validator's role
  argument is therefore modelled as a string, and a member is passed as its value. A value
  that is no string equals no member, as a string that is no member's value does.
\<close>

fun role_value :: "UserRole \<Rightarrow> string" where
  "role_value CUSTOMER = ''CUSTOMER''"
| "role_value ENGINEER = ''ENGINEER''"
| "role_value ADMIN = ''ADMIN''"

section \<open>The status transition validator: \<^verbatim>\<open>core/status_validator.py\<close>\<close>

text \<open>
  Each table is a Python dict from a status to a set of statuses, written as an association
  list in the order of the source; a set literal is the list of its elements and \<open>set()\<close>
  is the empty list.
\<close>

definition ADMIN_TRANSITIONS :: "(JobStatus \<times> JobStatus list) list" where
  "ADMIN_TRANSITIONS =
    [(PENDING_ASSIGNMENT, [ASSIGNED, CANCELLED]),
     (ASSIGNED, [PENDING_PICKUP_FOR_LAB, PENDING_VISIT, CANCELLED]),
     (PENDING_PICKUP_FOR_LAB, [IN_TRANSIT_TO_LAB, CANCELLED, ON_SITE_DIAGNOSIS]),
     (IN_TRANSIT_TO_LAB, [LAB_DIAGNOSIS, CANCELLED]),
     (PENDING_VISIT, [ON_SITE_DIAGNOSIS, CANCELLED, ESCALATED_TO_LAB]),
     (ON_SITE_DIAGNOSIS,
        [REPAIR_IN_PROGRESS_ON_SITE, PENDING_QUOTE_APPROVAL, CANCELLED, ESCALATED_TO_LAB]),
     (LAB_DIAGNOSIS, [REPAIR_IN_PROGRESS_LAB, PENDING_QUOTE_APPROVAL, CANCELLED]),
     (ESCALATED_TO_LAB, [PENDING_PICKUP_FOR_LAB, CANCELLED]),
     (PENDING_QUOTE_APPROVAL,
        [REPAIR_IN_PROGRESS_LAB, REPAIR_IN_PROGRESS_ON_SITE, CANCELLED]),
     (REPAIR_IN_PROGRESS_LAB, [PENDING_RETURN_DELIVERY, PENDING_PAYMENT, CANCELLED]),
     (REPAIR_IN_PROGRESS_ON_SITE, [PENDING_PAYMENT, CANCELLED]),
     (PENDING_RETURN_DELIVERY, [IN_TRANSIT_FROM_LAB, CANCELLED]),
     (IN_TRANSIT_FROM_LAB, [PENDING_PAYMENT, CANCELLED]),
     (PENDING_PAYMENT, [COMPLETED, CANCELLED]),
     (COMPLETED, []),
     (CANCELLED, [])]"

definition ENGINEER_TRANSITIONS :: "(JobStatus \<times> JobStatus list) list" where
  "ENGINEER_TRANSITIONS =
    [(PENDING_ASSIGNMENT, []),
     (ASSIGNED, [PENDING_PICKUP_FOR_LAB, PENDING_VISIT]),
     (PENDING_PICKUP_FOR_LAB, [IN_TRANSIT_TO_LAB, ON_SITE_DIAGNOSIS]),
     (IN_TRANSIT_TO_LAB, [LAB_DIAGNOSIS]),
     (PENDING_VISIT, [ON_SITE_DIAGNOSIS, ESCALATED_TO_LAB]),
     (ON_SITE_DIAGNOSIS,
        [REPAIR_IN_PROGRESS_ON_SITE, PENDING_QUOTE_APPROVAL, ESCALATED_TO_LAB]),
     (LAB_DIAGNOSIS, [REPAIR_IN_PROGRESS_LAB, PENDING_QUOTE_APPROVAL]),
     (ESCALATED_TO_LAB, [PENDING_PICKUP_FOR_LAB]),
     (PENDING_QUOTE_APPROVAL, []),
     (REPAIR_IN_PROGRESS_LAB, [PENDING_RETURN_DELIVERY, PENDING_PAYMENT]),
     (REPAIR_IN_PROGRESS_ON_SITE, [PENDING_PAYMENT]),
     (PENDING_RETURN_DELIVERY, [IN_TRANSIT_FROM_LAB]),
     (IN_TRANSIT_FROM_LAB, [PENDING_PAYMENT]),
     (PENDING_PAYMENT, [COMPLETED]),
     (COMPLETED, []),
     (CANCELLED, [])]"

definition CUSTOMER_TRANSITIONS :: "(JobStatus \<times> JobStatus list) list" where
  "CUSTOMER_TRANSITIONS =
    [(PENDING_ASSIGNMENT, [CANCELLED]),
     (ASSIGNED, [CANCELLED]),
     (PENDING_PICKUP_FOR_LAB, [CANCELLED]),
     (PENDING_VISIT, [CANCELLED]),
     (PENDING_QUOTE_APPROVAL,
        [REPAIR_IN_PROGRESS_LAB, REPAIR_IN_PROGRESS_ON_SITE, CANCELLED]),
     (IN_TRANSIT_TO_LAB, []),
     (LAB_DIAGNOSIS, []),
     (ON_SITE_DIAGNOSIS, []),
     (ESCALATED_TO_LAB, []),
     (REPAIR_IN_PROGRESS_LAB, []),
     (REPAIR_IN_PROGRESS_ON_SITE, []),
     (PENDING_RETURN_DELIVERY, []),
     (IN_TRANSIT_FROM_LAB, []),
     (PENDING_PAYMENT, []),
     (COMPLETED, []),
     (CANCELLED, [])]"

text \<open>\<open>transitions.get(current_status, set())\<close>: the entry of the key, the empty set when absent.\<close>

definition dict_get :: "(JobStatus \<times> JobStatus list) list \<Rightarrow> JobStatus \<Rightarrow> JobStatus list" where
  "dict_get transitions current_status =
     (case map_of transitions current_status of
        None \<Rightarrow> []
      | Some allowed_next_statuses \<Rightarrow> allowed_next_statuses)"

definition is_transition_allowed :: "JobStatus \<Rightarrow> JobStatus \<Rightarrow> string \<Rightarrow> bool" where
  "is_transition_allowed current_status new_status user_role =
     (if current_status = new_status then True
      else if user_role = role_value ADMIN then
        new_status \<in> set (dict_get ADMIN_TRANSITIONS current_status)
      else if user_role = role_value ENGINEER then
        new_status \<in> set (dict_get ENGINEER_TRANSITIONS current_status)
      else if user_role = role_value CUSTOMER then
        new_status \<in> set (dict_get CUSTOMER_TRANSITIONS current_status)
      else False)"

text \<open>
  \<open>get_allowed_transitions\<close> returns \<open>list(s)\<close> of a set \<open>s\<close>: the elements of the set in an
  order Python does not fix. The model returns them in the order of the table; the theorems
  below speak of membership and of emptiness only.
\<close>

definition get_allowed_transitions :: "JobStatus \<Rightarrow> string \<Rightarrow> JobStatus list" where
  "get_allowed_transitions current_status role =
     (if role = role_value ADMIN then dict_get ADMIN_TRANSITIONS current_status
      else if role = role_value ENGINEER then dict_get ENGINEER_TRANSITIONS current_status
      else if role = role_value CUSTOMER then dict_get CUSTOMER_TRANSITIONS current_status
      else [])"

text \<open>The \<open>.value\<close> of a status member: the string written in the class body.\<close>

fun status_value :: "JobStatus \<Rightarrow> string" where
  "status_value PENDING_ASSIGNMENT = ''PENDING_ASSIGNMENT''"
| "status_value ASSIGNED = ''ASSIGNED''"
| "status_value PENDING_VISIT = ''PENDING_VISIT''"
| "status_value PENDING_PICKUP_FOR_LAB = ''PENDING_PICKUP_FOR_LAB''"
| "status_value IN_TRANSIT_TO_LAB = ''IN_TRANSIT_TO_LAB''"
| "status_value IN_TRANSIT_FROM_LAB = ''IN_TRANSIT_FROM_LAB''"
| "status_value ON_SITE_DIAGNOSIS = ''ON_SITE_DIAGNOSIS''"
| "status_value LAB_DIAGNOSIS = ''LAB_DIAGNOSIS''"
| "status_value ESCALATED_TO_LAB = ''ESCALATED_TO_LAB''"
| "status_value PENDING_QUOTE_APPROVAL = ''PENDING_QUOTE_APPROVAL''"
| "status_value REPAIR_IN_PROGRESS_LAB = ''REPAIR_IN_PROGRESS_LAB''"
| "status_value REPAIR_IN_PROGRESS_ON_SITE = ''REPAIR_IN_PROGRESS_ON_SITE''"
| "status_value PENDING_RETURN_DELIVERY = ''PENDING_RETURN_DELIVERY''"
| "status_value PENDING_PAYMENT = ''PENDING_PAYMENT''"
| "status_value COMPLETED = ''COMPLETED''"
| "status_value CANCELLED = ''CANCELLED''"

section \<open>Rows, request bodies and the database session\<close>

text \<open>
  Only the columns that the job operations below read or write are kept. The primary keys
  are called \<open>uid\<close> and \<open>jid\<close> (the source calls both \<open>id\<close>), the \<open>notes\<close> field of a
  request is \<open>note_text\<close>, the \<open>reason\<close> of a cancellation is \<open>cancel_reason\<close>, and the
  fields of a history row carry the prefix \<open>upd\<close>: the plain names are taken in Isabelle
  or are the names of the parameters of the functions below. Automatic columns
  (the key of a history row, \<open>timestamp\<close>, \<open>updated_at\<close>) are left out.
\<close>

record JobStatusUpdateCreate =
  status :: JobStatus
  note_text :: "string option"
  customer_consent_for_lab :: "bool option"

record JobCancellation =
  cancel_reason :: string

record User =
  uid :: string
  role :: UserRole

record JobStatusUpdate =
  upd_job_id :: int
  upd_user_id :: string
  upd_previous_status :: JobStatus
  upd_new_status :: JobStatus
  upd_notes :: "string option"

record RepairJob =
  jid :: int
  customer_id :: string
  engineer_id :: "string option"
  status :: JobStatus
  engineer_notes :: "string option"
  admin_notes :: "string option"
  customer_consent_for_lab :: bool
  cancellation_reason :: "string option"

text \<open>
  The session: the \<open>repair_jobs\<close> and \<open>users\<close> tables keyed by primary key, and the
  \<open>job_status_updates\<close> table as the list of its rows in insertion order.
\<close>

record Session =
  repair_jobs :: "int \<rightharpoonup> RepairJob"
  users :: "string \<rightharpoonup> User"
  job_status_updates :: "JobStatusUpdate list"

record HTTPException =
  status_code :: nat
  detail :: string

section \<open>Persistence operations: \<^verbatim>\<open>crud/crud_job.py\<close>\<close>

definition get_job :: "Session \<Rightarrow> int \<Rightarrow> RepairJob option" where
  "get_job db job_id = repair_jobs db job_id"

definition record_status_update ::
  "Session \<Rightarrow> int \<Rightarrow> JobStatus option \<Rightarrow> JobStatus \<Rightarrow> string \<Rightarrow> string option
     \<Rightarrow> JobStatusUpdate \<times> Session" where
  "record_status_update db job_id previous_status new_status user_id notes =
     (let previous_status' = (case previous_status of None \<Rightarrow> new_status | Some p \<Rightarrow> p);
          status_update = \<lparr>upd_job_id = job_id, upd_user_id = user_id,
                           upd_previous_status = previous_status',
                           upd_new_status = new_status, upd_notes = notes\<rparr>
      in (status_update, db\<lparr>job_status_updates := job_status_updates db @ [status_update]\<rparr>))"

text \<open>
  \<open>now\<close> is the text of \<open>datetime.now(timezone.utc).isoformat()\<close> at the call.
  \<open>extra_updates\<close> is a dict whose only possible key is \<open>customer_consent_for_lab\<close>:
  \<open>None\<close> is the empty dict, \<open>Some c\<close> the dict with that key set to \<open>c\<close>.
  A note is falsy when it is \<open>None\<close> or the empty string.
\<close>

definition crud_job_update_job_status ::
  "string \<Rightarrow> Session \<Rightarrow> int \<Rightarrow> JobStatus \<Rightarrow> string \<Rightarrow> string option \<Rightarrow> bool option
     \<Rightarrow> RepairJob option \<times> Session" where
  "crud_job_update_job_status now db job_id new_status user_id notes extra_updates =
     (case get_job db job_id of
        None \<Rightarrow> (None, db)
      | Some db_job \<Rightarrow>
          (let previous_status = RepairJob.status db_job;
               job1 = db_job\<lparr>RepairJob.status := new_status\<rparr>;
               job2 = (case extra_updates of
                         None \<Rightarrow> job1
                       | Some v \<Rightarrow> job1\<lparr>RepairJob.customer_consent_for_lab := v\<rparr>);
               user = users db user_id;
               job3 =
                 (case notes of
                    None \<Rightarrow> job2
                  | Some n \<Rightarrow>
                      if n = [] then job2
                      else if (case user of None \<Rightarrow> False | Some u \<Rightarrow> role u = ENGINEER) then
                        (case engineer_notes job2 of
                           None \<Rightarrow> job2\<lparr>engineer_notes := Some (''['' @ now @ ''] '' @ n)\<rparr>
                         | Some old \<Rightarrow>
                             if old = [] then
                               job2\<lparr>engineer_notes := Some (''['' @ now @ ''] '' @ n)\<rparr>
                             else
                               job2\<lparr>engineer_notes :=
                                       Some (old @ [CHR 0x0A] @ ''['' @ now @ ''] '' @ n)\<rparr>)
                      else
                        (case admin_notes job2 of
                           None \<Rightarrow> job2\<lparr>admin_notes := Some (''['' @ now @ ''] '' @ n)\<rparr>
                         | Some old \<Rightarrow>
                             if old = [] then
                               job2\<lparr>admin_notes := Some (''['' @ now @ ''] '' @ n)\<rparr>
                             else
                               job2\<lparr>admin_notes :=
                                       Some (old @ [CHR 0x0A] @ ''['' @ now @ ''] '' @ n)\<rparr>));
               db1 = db\<lparr>repair_jobs := (repair_jobs db)(job_id \<mapsto> job3)\<rparr>;
               db2 = snd (record_status_update db1 job_id (Some previous_status) new_status
                            user_id notes)
           in (Some job3, db2)))"

definition crud_job_cancel_job ::
  "Session \<Rightarrow> int \<Rightarrow> string \<Rightarrow> string \<Rightarrow> RepairJob option \<times> Session" where
  "crud_job_cancel_job db job_id user_id reason =
     (case get_job db job_id of
        None \<Rightarrow> (None, db)
      | Some db_job \<Rightarrow>
          (let previous_status = RepairJob.status db_job;
               job1 = db_job\<lparr>RepairJob.status := CANCELLED,
                              cancellation_reason := Some reason\<rparr>;
               db1 = db\<lparr>repair_jobs := (repair_jobs db)(job_id \<mapsto> job1)\<rparr>;
               db2 = snd (record_status_update db1 job_id (Some previous_status) CANCELLED
                            user_id (Some (''Job cancelled: '' @ reason)))
           in (Some job1, db2)))"

section \<open>Job endpoints: \<^verbatim>\<open>api/v1/endpoints/jobs.py\<close>\<close>

text \<open>
  A raised \<open>HTTPException\<close> is the \<open>Inl\<close> result; it is raised before anything is written,
  so the session is returned only on success. How an f-string renders a member of a
  \<open>str\<close>-mixin enumeration depends on the interpreter (its value, or the class and member
  name), so the two renderings \<open>fmt_status\<close> and \<open>fmt_role\<close> are parameters.
  The request body \<open>status_update\<close> of the source is the parameter \<open>status_upd\<close>.
\<close>

definition update_job_status ::
  "(JobStatus \<Rightarrow> string) \<Rightarrow> (UserRole \<Rightarrow> string) \<Rightarrow> string \<Rightarrow> Session \<Rightarrow> User
     \<Rightarrow> JobStatusUpdateCreate \<Rightarrow> int \<Rightarrow> HTTPException + (RepairJob option \<times> Session)" where
  "update_job_status fmt_status fmt_role now db current_user status_upd job_id =
     (if role current_user \<notin> set [ENGINEER, ADMIN] then
        Inl \<lparr>status_code = 403, detail = ''Only Engineers and Admins can update job status''\<rparr>
      else
        (case get_job db job_id of
           None \<Rightarrow> Inl \<lparr>status_code = 404, detail = ''Job not found''\<rparr>
         | Some job \<Rightarrow>
             if role current_user = ENGINEER \<and> engineer_id job \<noteq> Some (uid current_user) then
               Inl \<lparr>status_code = 403,
                    detail = ''Engineers can only update status for jobs assigned to them''\<rparr>
             else if \<not> is_transition_allowed (RepairJob.status job)
                         (JobStatusUpdateCreate.status status_upd)
                         (role_value (role current_user)) then
               Inl \<lparr>status_code = 422,
                    detail = ''Invalid status transition from '' @ fmt_status (RepairJob.status job)
                             @ '' to '' @ fmt_status (JobStatusUpdateCreate.status status_upd)
                             @ '' for '' @ fmt_role (role current_user)\<rparr>
             else
               (let extra_updates =
                      (case JobStatusUpdateCreate.customer_consent_for_lab status_upd of
                         None \<Rightarrow> None
                       | Some c \<Rightarrow>
                           if JobStatusUpdateCreate.status status_upd
                                \<in> set [PENDING_PICKUP_FOR_LAB, ESCALATED_TO_LAB]
                           then Some c else None)
                in if JobStatusUpdateCreate.status status_upd \<in> set [IN_TRANSIT_TO_LAB]
                      \<and> \<not> RepairJob.customer_consent_for_lab job then
                     Inl \<lparr>status_code = 422,
                          detail = ''Customer consent required for lab-related transitions''\<rparr>
                   else
                     Inr (crud_job_update_job_status now db job_id
                            (JobStatusUpdateCreate.status status_upd) (uid current_user)
                            (JobStatusUpdateCreate.note_text status_upd) extra_updates))))"

definition cancel_job ::
  "(JobStatus \<Rightarrow> string) \<Rightarrow> Session \<Rightarrow> User \<Rightarrow> JobCancellation \<Rightarrow> int
     \<Rightarrow> HTTPException + (RepairJob option \<times> Session)" where
  "cancel_job fmt_status db current_user cancellation_data job_id =
     (case get_job db job_id of
        None \<Rightarrow> Inl \<lparr>status_code = 404, detail = ''Job not found''\<rparr>
      | Some job \<Rightarrow>
          if role current_user = CUSTOMER \<and> customer_id job \<noteq> uid current_user then
            Inl \<lparr>status_code = 403, detail = ''Customers can only cancel their own jobs''\<rparr>
          else if role current_user = ENGINEER then
            Inl \<lparr>status_code = 403, detail = ''Engineers cannot cancel jobs''\<rparr>
          else if RepairJob.status job \<in> set [COMPLETED, CANCELLED] then
            Inl \<lparr>status_code = 422,
                 detail = ''Cannot cancel job in '' @ fmt_status (RepairJob.status job)
                          @ '' status''\<rparr>
          else
            Inr (crud_job_cancel_job db job_id (uid current_user) (cancel_reason cancellation_data)))"

section \<open>Example data\<close>

text \<open>
  A session in the shape the API tests build: one customer, one engineer, a job waiting
  for pickup to the lab without the customer's consent, and a job under repair in the lab.
\<close>

definition example_customer :: User where
  "example_customer = \<lparr>uid = ''cust-1'', role = CUSTOMER\<rparr>"

definition example_engineer :: User where
  "example_engineer = \<lparr>uid = ''eng-1'', role = ENGINEER\<rparr>"

definition job_without_consent :: RepairJob where
  "job_without_consent =
     \<lparr>jid = 1, customer_id = ''cust-1'', engineer_id = Some ''eng-1'',
      status = PENDING_PICKUP_FOR_LAB, engineer_notes = None, admin_notes = None,
      customer_consent_for_lab = False, cancellation_reason = None\<rparr>"

definition job_in_lab_repair :: RepairJob where
  "job_in_lab_repair =
     \<lparr>jid = 2, customer_id = ''cust-1'', engineer_id = Some ''eng-1'',
      status = REPAIR_IN_PROGRESS_LAB, engineer_notes = None, admin_notes = None,
      customer_consent_for_lab = True, cancellation_reason = None\<rparr>"

definition example_db :: Session where
  "example_db =
     \<lparr>repair_jobs = [1 \<mapsto> job_without_consent, 2 \<mapsto> job_in_lab_repair],
      users = [''cust-1'' \<mapsto> example_customer, ''eng-1'' \<mapsto> example_engineer],
      job_status_updates = []\<rparr>"

definition transit_request :: JobStatusUpdateCreate where
  "transit_request =
     \<lparr>JobStatusUpdateCreate.status = IN_TRANSIT_TO_LAB,
      note_text = Some ''Attempting transit without consent'',
      JobStatusUpdateCreate.customer_consent_for_lab = None\<rparr>"

text \<open>
  A second session: an engineer who is not assigned to any job, an admin, and a job that
  is still \<open>ASSIGNED\<close>, next to the job waiting for pickup; neither job has the consent.
\<close>

definition other_engineer :: User where
  "other_engineer = \<lparr>uid = ''eng-2'', role = ENGINEER\<rparr>"

definition example_admin :: User where
  "example_admin = \<lparr>uid = ''admin-1'', role = ADMIN\<rparr>"

definition job_assigned :: RepairJob where
  "job_assigned =
     \<lparr>jid = 3, customer_id = ''cust-1'', engineer_id = Some ''eng-1'',
      status = ASSIGNED, engineer_notes = None, admin_notes = None,
      customer_consent_for_lab = False, cancellation_reason = None\<rparr>"

definition staff_db :: Session where
  "staff_db =
     \<lparr>repair_jobs = [1 \<mapsto> job_without_consent, 3 \<mapsto> job_assigned],
      users = [''cust-1'' \<mapsto> example_customer, ''eng-1'' \<mapsto> example_engineer,
               ''eng-2'' \<mapsto> other_engineer, ''admin-1'' \<mapsto> example_admin],
      job_status_updates = []\<rparr>"

section \<open>Properties of the validator\<close>

text \<open>The rows of the three tables, as sets.\<close>

lemma allowed_ADMIN:
  "get_allowed_transitions s (role_value ADMIN) = dict_get ADMIN_TRANSITIONS s"
  by (simp add: get_allowed_transitions_def)

lemma allowed_ENGINEER:
  "get_allowed_transitions s (role_value ENGINEER) = dict_get ENGINEER_TRANSITIONS s"
  by (simp add: get_allowed_transitions_def)

lemma allowed_CUSTOMER:
  "get_allowed_transitions s (role_value CUSTOMER) = dict_get CUSTOMER_TRANSITIONS s"
  by (simp add: get_allowed_transitions_def)

lemma decision_by_listing:
  "is_transition_allowed s t (role_value r) =
     (s = t \<or> t \<in> set (get_allowed_transitions s (role_value r)))"
  by (cases r; simp add: is_transition_allowed_def get_allowed_transitions_def)

lemma ADMIN_row:
  "set (dict_get ADMIN_TRANSITIONS s) =
     (case s of
        PENDING_ASSIGNMENT \<Rightarrow> {ASSIGNED, CANCELLED}
      | ASSIGNED \<Rightarrow> {PENDING_PICKUP_FOR_LAB, PENDING_VISIT, CANCELLED}
      | PENDING_VISIT \<Rightarrow> {ON_SITE_DIAGNOSIS, CANCELLED, ESCALATED_TO_LAB}
      | PENDING_PICKUP_FOR_LAB \<Rightarrow> {IN_TRANSIT_TO_LAB, CANCELLED, ON_SITE_DIAGNOSIS}
      | IN_TRANSIT_TO_LAB \<Rightarrow> {LAB_DIAGNOSIS, CANCELLED}
      | IN_TRANSIT_FROM_LAB \<Rightarrow> {PENDING_PAYMENT, CANCELLED}
      | ON_SITE_DIAGNOSIS \<Rightarrow>
          {REPAIR_IN_PROGRESS_ON_SITE, PENDING_QUOTE_APPROVAL, CANCELLED, ESCALATED_TO_LAB}
      | LAB_DIAGNOSIS \<Rightarrow> {REPAIR_IN_PROGRESS_LAB, PENDING_QUOTE_APPROVAL, CANCELLED}
      | ESCALATED_TO_LAB \<Rightarrow> {PENDING_PICKUP_FOR_LAB, CANCELLED}
      | PENDING_QUOTE_APPROVAL \<Rightarrow>
          {REPAIR_IN_PROGRESS_LAB, REPAIR_IN_PROGRESS_ON_SITE, CANCELLED}
      | REPAIR_IN_PROGRESS_LAB \<Rightarrow> {PENDING_RETURN_DELIVERY, PENDING_PAYMENT, CANCELLED}
      | REPAIR_IN_PROGRESS_ON_SITE \<Rightarrow> {PENDING_PAYMENT, CANCELLED}
      | PENDING_RETURN_DELIVERY \<Rightarrow> {IN_TRANSIT_FROM_LAB, CANCELLED}
      | PENDING_PAYMENT \<Rightarrow> {COMPLETED, CANCELLED}
      | COMPLETED \<Rightarrow> {}
      | CANCELLED \<Rightarrow> {})"
  by (cases s; simp add: dict_get_def ADMIN_TRANSITIONS_def)

lemma ENGINEER_row:
  "set (dict_get ENGINEER_TRANSITIONS s) =
     (case s of
        PENDING_ASSIGNMENT \<Rightarrow> {}
      | ASSIGNED \<Rightarrow> {PENDING_PICKUP_FOR_LAB, PENDING_VISIT}
      | PENDING_VISIT \<Rightarrow> {ON_SITE_DIAGNOSIS, ESCALATED_TO_LAB}
      | PENDING_PICKUP_FOR_LAB \<Rightarrow> {IN_TRANSIT_TO_LAB, ON_SITE_DIAGNOSIS}
      | IN_TRANSIT_TO_LAB \<Rightarrow> {LAB_DIAGNOSIS}
      | IN_TRANSIT_FROM_LAB \<Rightarrow> {PENDING_PAYMENT}
      | ON_SITE_DIAGNOSIS \<Rightarrow>
          {REPAIR_IN_PROGRESS_ON_SITE, PENDING_QUOTE_APPROVAL, ESCALATED_TO_LAB}
      | LAB_DIAGNOSIS \<Rightarrow> {REPAIR_IN_PROGRESS_LAB, PENDING_QUOTE_APPROVAL}
      | ESCALATED_TO_LAB \<Rightarrow> {PENDING_PICKUP_FOR_LAB}
      | PENDING_QUOTE_APPROVAL \<Rightarrow> {}
      | REPAIR_IN_PROGRESS_LAB \<Rightarrow> {PENDING_RETURN_DELIVERY, PENDING_PAYMENT}
      | REPAIR_IN_PROGRESS_ON_SITE \<Rightarrow> {PENDING_PAYMENT}
      | PENDING_RETURN_DELIVERY \<Rightarrow> {IN_TRANSIT_FROM_LAB}
      | PENDING_PAYMENT \<Rightarrow> {COMPLETED}
      | COMPLETED \<Rightarrow> {}
      | CANCELLED \<Rightarrow> {})"
  by (cases s; simp add: dict_get_def ENGINEER_TRANSITIONS_def)

lemma CUSTOMER_row:
  "set (dict_get CUSTOMER_TRANSITIONS s) =
     (case s of
        PENDING_ASSIGNMENT \<Rightarrow> {CANCELLED}
      | ASSIGNED \<Rightarrow> {CANCELLED}
      | PENDING_VISIT \<Rightarrow> {CANCELLED}
      | PENDING_PICKUP_FOR_LAB \<Rightarrow> {CANCELLED}
      | PENDING_QUOTE_APPROVAL \<Rightarrow>
          {REPAIR_IN_PROGRESS_LAB, REPAIR_IN_PROGRESS_ON_SITE, CANCELLED}
      | _ \<Rightarrow> {})"
  by (cases s; simp add: dict_get_def CUSTOMER_TRANSITIONS_def)

text \<open>
  Claim C1. For each of the three roles and any two different statuses, the target is in
  the list returned by \<open>get_allowed_transitions\<close> for the current status exactly when
  \<open>is_transition_allowed\<close> accepts the move.
\<close>

theorem listing_agrees_with_decision:
  "target \<noteq> current \<Longrightarrow>
     (target \<in> set (get_allowed_transitions current (role_value r)))
       = is_transition_allowed current target (role_value r)"
  by (auto simp: decision_by_listing)

theorem listing_agrees_with_decision_witness:
  "ASSIGNED \<noteq> PENDING_ASSIGNMENT
   \<and> ASSIGNED \<in> set (get_allowed_transitions PENDING_ASSIGNMENT ''ADMIN'')
   \<and> is_transition_allowed PENDING_ASSIGNMENT ASSIGNED ''ADMIN''
   \<and> ASSIGNED \<notin> set (get_allowed_transitions PENDING_ASSIGNMENT ''ENGINEER'')
   \<and> \<not> is_transition_allowed PENDING_ASSIGNMENT ASSIGNED ''ENGINEER''"
  using listing_agrees_with_decision [of ASSIGNED PENDING_ASSIGNMENT ADMIN]
        listing_agrees_with_decision [of ASSIGNED PENDING_ASSIGNMENT ENGINEER]
  by (simp add: get_allowed_transitions_def dict_get_def ADMIN_TRANSITIONS_def
        ENGINEER_TRANSITIONS_def)

text \<open>
  Claim C2. For each of the three roles, no target other than \<open>COMPLETED\<close> and \<open>CANCELLED\<close>
  is accepted from \<open>COMPLETED\<close> or from \<open>CANCELLED\<close>, and the allowed list of both statuses
  is empty in every role's table.
\<close>

theorem terminal_statuses_absorbing:
  "s2 \<noteq> COMPLETED \<Longrightarrow> s2 \<noteq> CANCELLED \<Longrightarrow>
     \<not> is_transition_allowed COMPLETED s2 (role_value r)
     \<and> \<not> is_transition_allowed CANCELLED s2 (role_value r)
     \<and> get_allowed_transitions COMPLETED (role_value r) = []
     \<and> get_allowed_transitions CANCELLED (role_value r) = []"
  by (cases r;
      simp add: is_transition_allowed_def get_allowed_transitions_def dict_get_def
        ADMIN_TRANSITIONS_def ENGINEER_TRANSITIONS_def CUSTOMER_TRANSITIONS_def)

theorem terminal_statuses_absorbing_witness:
  "PENDING_PAYMENT \<noteq> COMPLETED \<and> PENDING_PAYMENT \<noteq> CANCELLED
   \<and> \<not> is_transition_allowed COMPLETED PENDING_PAYMENT ''ADMIN''
   \<and> \<not> is_transition_allowed CANCELLED PENDING_PAYMENT ''ADMIN''
   \<and> get_allowed_transitions COMPLETED ''ADMIN'' = []
   \<and> get_allowed_transitions CANCELLED ''ADMIN'' = []"
  using terminal_statuses_absorbing [of PENDING_PAYMENT ADMIN] by simp

text \<open>
  Claim C3. A move from a status to itself is accepted for every role value, known or not.
\<close>

theorem self_transition_always_allowed:
  "is_transition_allowed s s user_role"
  by (simp add: is_transition_allowed_def)

text \<open>
  Claim C4. For a role value that is none of \<open>ADMIN\<close>, \<open>ENGINEER\<close>, \<open>CUSTOMER\<close>, every move
  between two different statuses is refused and the allowed list is empty.
\<close>

theorem unknown_role_denied:
  "user_role \<noteq> role_value ADMIN \<Longrightarrow> user_role \<noteq> role_value ENGINEER \<Longrightarrow>
   user_role \<noteq> role_value CUSTOMER \<Longrightarrow> s1 \<noteq> s2 \<Longrightarrow>
     \<not> is_transition_allowed s1 s2 user_role \<and> get_allowed_transitions s1 user_role = []"
  by (simp add: is_transition_allowed_def get_allowed_transitions_def)

theorem unknown_role_denied_witness:
  "''MANAGER'' \<noteq> role_value ADMIN \<and> ''MANAGER'' \<noteq> role_value ENGINEER
   \<and> ''MANAGER'' \<noteq> role_value CUSTOMER \<and> PENDING_ASSIGNMENT \<noteq> ASSIGNED
   \<and> \<not> is_transition_allowed PENDING_ASSIGNMENT ASSIGNED ''MANAGER''
   \<and> get_allowed_transitions PENDING_ASSIGNMENT ''MANAGER'' = []"
  using unknown_role_denied [of "''MANAGER''" PENDING_ASSIGNMENT ASSIGNED] by simp

text \<open>
  Claim C5. For a customer, a move between two different statuses is accepted exactly when
  it goes to \<open>CANCELLED\<close> from one of the five early statuses, or from
  \<open>PENDING_QUOTE_APPROVAL\<close> to one of the two repair-in-progress statuses.
\<close>

theorem customer_transitions_exact:
  "current \<noteq> target \<Longrightarrow>
     is_transition_allowed current target (role_value CUSTOMER) =
       (target = CANCELLED
          \<and> current \<in> {PENDING_ASSIGNMENT, ASSIGNED, PENDING_PICKUP_FOR_LAB, PENDING_VISIT,
                        PENDING_QUOTE_APPROVAL}
        \<or> current = PENDING_QUOTE_APPROVAL
          \<and> target \<in> {REPAIR_IN_PROGRESS_LAB, REPAIR_IN_PROGRESS_ON_SITE})"
  unfolding decision_by_listing allowed_CUSTOMER CUSTOMER_row
  by (cases current; auto)

theorem customer_transitions_exact_witness:
  "PENDING_QUOTE_APPROVAL \<noteq> REPAIR_IN_PROGRESS_LAB
   \<and> is_transition_allowed PENDING_QUOTE_APPROVAL REPAIR_IN_PROGRESS_LAB ''CUSTOMER''
   \<and> REPAIR_IN_PROGRESS_LAB \<noteq> CANCELLED
   \<and> \<not> is_transition_allowed REPAIR_IN_PROGRESS_LAB CANCELLED ''CUSTOMER''"
  using customer_transitions_exact [of PENDING_QUOTE_APPROVAL REPAIR_IN_PROGRESS_LAB]
        customer_transitions_exact [of REPAIR_IN_PROGRESS_LAB CANCELLED]
  by simp

text \<open>
  Claim C6. For an engineer, the move to \<open>CANCELLED\<close> is refused from every other status
  (\<open>CANCELLED\<close> is in no allowed list), and the allowed lists of \<open>PENDING_ASSIGNMENT\<close> and of
  \<open>PENDING_QUOTE_APPROVAL\<close> are empty.
\<close>

theorem engineer_restrictions:
  "(s \<noteq> CANCELLED \<longrightarrow> \<not> is_transition_allowed s CANCELLED (role_value ENGINEER))
   \<and> CANCELLED \<notin> set (get_allowed_transitions s (role_value ENGINEER))
   \<and> get_allowed_transitions PENDING_ASSIGNMENT (role_value ENGINEER) = []
   \<and> get_allowed_transitions PENDING_QUOTE_APPROVAL (role_value ENGINEER) = []"
proof -
  have "CANCELLED \<notin> set (get_allowed_transitions s (role_value ENGINEER))"
    unfolding allowed_ENGINEER ENGINEER_row by (cases s; simp)
  moreover have "get_allowed_transitions PENDING_ASSIGNMENT (role_value ENGINEER) = []"
    and "get_allowed_transitions PENDING_QUOTE_APPROVAL (role_value ENGINEER) = []"
    by (simp_all add: get_allowed_transitions_def dict_get_def ENGINEER_TRANSITIONS_def)
  ultimately show ?thesis
    unfolding decision_by_listing by blast
qed

theorem engineer_restrictions_witness:
  "PENDING_PAYMENT \<noteq> CANCELLED
   \<and> \<not> is_transition_allowed PENDING_PAYMENT CANCELLED ''ENGINEER''
   \<and> get_allowed_transitions PENDING_ASSIGNMENT ''ENGINEER'' = []
   \<and> get_allowed_transitions PENDING_QUOTE_APPROVAL ''ENGINEER'' = []"
  using engineer_restrictions [of PENDING_PAYMENT] by simp

text \<open>
  Claim C7. At every status, whatever the engineer table or the customer table allows the
  admin table allows too, and the admin table allows \<open>CANCELLED\<close> from every status other
  than \<open>COMPLETED\<close> and \<open>CANCELLED\<close>.
\<close>

theorem admin_table_superset:
  "(t \<in> set (get_allowed_transitions s (role_value ENGINEER))
      \<longrightarrow> t \<in> set (get_allowed_transitions s (role_value ADMIN)))
   \<and> (t \<in> set (get_allowed_transitions s (role_value CUSTOMER))
      \<longrightarrow> t \<in> set (get_allowed_transitions s (role_value ADMIN)))
   \<and> (is_transition_allowed s t (role_value ENGINEER)
      \<longrightarrow> is_transition_allowed s t (role_value ADMIN))
   \<and> (is_transition_allowed s t (role_value CUSTOMER)
      \<longrightarrow> is_transition_allowed s t (role_value ADMIN))
   \<and> (s \<noteq> COMPLETED \<and> s \<noteq> CANCELLED
      \<longrightarrow> CANCELLED \<in> set (get_allowed_transitions s (role_value ADMIN)))"
proof -
  have e: "set (get_allowed_transitions s (role_value ENGINEER))
             \<subseteq> set (get_allowed_transitions s (role_value ADMIN))"
    unfolding allowed_ENGINEER allowed_ADMIN ENGINEER_row ADMIN_row by (cases s; simp)
  have c: "set (get_allowed_transitions s (role_value CUSTOMER))
             \<subseteq> set (get_allowed_transitions s (role_value ADMIN))"
    unfolding allowed_CUSTOMER allowed_ADMIN CUSTOMER_row ADMIN_row by (cases s; simp)
  have x: "s \<noteq> COMPLETED \<and> s \<noteq> CANCELLED
             \<longrightarrow> CANCELLED \<in> set (get_allowed_transitions s (role_value ADMIN))"
    unfolding allowed_ADMIN ADMIN_row by (cases s; simp)
  from e c x show ?thesis
    unfolding decision_by_listing by blast
qed

theorem admin_table_superset_witness:
  "IN_TRANSIT_TO_LAB \<in> set (get_allowed_transitions PENDING_PICKUP_FOR_LAB ''ENGINEER'')
   \<and> IN_TRANSIT_TO_LAB \<in> set (get_allowed_transitions PENDING_PICKUP_FOR_LAB ''ADMIN'')
   \<and> is_transition_allowed PENDING_PICKUP_FOR_LAB IN_TRANSIT_TO_LAB ''ENGINEER''
   \<and> is_transition_allowed PENDING_PICKUP_FOR_LAB IN_TRANSIT_TO_LAB ''ADMIN''
   \<and> REPAIR_IN_PROGRESS_LAB \<in> set (get_allowed_transitions PENDING_QUOTE_APPROVAL ''CUSTOMER'')
   \<and> REPAIR_IN_PROGRESS_LAB \<in> set (get_allowed_transitions PENDING_QUOTE_APPROVAL ''ADMIN'')
   \<and> is_transition_allowed PENDING_QUOTE_APPROVAL REPAIR_IN_PROGRESS_LAB ''CUSTOMER''
   \<and> is_transition_allowed PENDING_QUOTE_APPROVAL REPAIR_IN_PROGRESS_LAB ''ADMIN''
   \<and> PENDING_PICKUP_FOR_LAB \<noteq> COMPLETED \<and> PENDING_PICKUP_FOR_LAB \<noteq> CANCELLED
   \<and> CANCELLED \<in> set (get_allowed_transitions PENDING_PICKUP_FOR_LAB ''ADMIN'')"
  using admin_table_superset [of IN_TRANSIT_TO_LAB PENDING_PICKUP_FOR_LAB]
        admin_table_superset [of REPAIR_IN_PROGRESS_LAB PENDING_QUOTE_APPROVAL]
  by (simp add: get_allowed_transitions_def is_transition_allowed_def dict_get_def
        ENGINEER_TRANSITIONS_def CUSTOMER_TRANSITIONS_def)

section \<open>Properties of the job endpoints\<close>

text \<open>
  Claim C8, as amended. The caller is an admin or the engineer assigned to the job, and asks
  to move a job whose stored \<open>customer_consent_for_lab\<close> is not true to \<open>IN_TRANSIT_TO_LAB\<close>.
  The request is refused with 422 either way. The transition check comes first: when it
  refuses, the message is \<open>Invalid status transition from ... to ... for ...\<close>. When it
  accepts, the consent check that follows refuses with the message
  \<open>Customer consent required for lab-related transitions\<close>, whatever the role, the current
  status and the consent flag sent with the request. The two messages differ for every
  rendering of the statuses and of the role.
\<close>

theorem lab_transit_requires_consent:
  assumes "get_job db job_id = Some job"
    and "JobStatusUpdateCreate.status status_upd = IN_TRANSIT_TO_LAB"
    and "\<not> RepairJob.customer_consent_for_lab job"
    and "role current_user = ADMIN
         \<or> role current_user = ENGINEER \<and> engineer_id job = Some (uid current_user)"
  shows "update_job_status fmt_status fmt_role now db current_user status_upd job_id =
           (if is_transition_allowed (RepairJob.status job) IN_TRANSIT_TO_LAB
                 (role_value (role current_user))
            then Inl \<lparr>status_code = 422,
                      detail = ''Customer consent required for lab-related transitions''\<rparr>
            else Inl \<lparr>status_code = 422,
                      detail = ''Invalid status transition from ''
                               @ fmt_status (RepairJob.status job)
                               @ '' to '' @ fmt_status IN_TRANSIT_TO_LAB
                               @ '' for '' @ fmt_role (role current_user)\<rparr>)
         \<and> ''Customer consent required for lab-related transitions''
             \<noteq> ''Invalid status transition from '' @ fmt_status (RepairJob.status job)
                 @ '' to '' @ fmt_status IN_TRANSIT_TO_LAB
                 @ '' for '' @ fmt_role (role current_user)"
proof -
  have auth: "role current_user \<in> set [ENGINEER, ADMIN]"
    using assms(4) by auto
  have own: "\<not> (role current_user = ENGINEER \<and> engineer_id job \<noteq> Some (uid current_user))"
    using assms(4) by auto
  show ?thesis
    using assms(1,2,3) auth own
    by (simp add: update_job_status_def Let_def)
qed

theorem lab_transit_requires_consent_witness:
  "get_job example_db 1 = Some job_without_consent
   \<and> JobStatusUpdateCreate.status transit_request = IN_TRANSIT_TO_LAB
   \<and> \<not> RepairJob.customer_consent_for_lab job_without_consent
   \<and> role example_engineer = ENGINEER
   \<and> engineer_id job_without_consent = Some (uid example_engineer)
   \<and> is_transition_allowed (RepairJob.status job_without_consent) IN_TRANSIT_TO_LAB
         (role_value (role example_engineer))
   \<and> update_job_status status_value role_value ''2024-01-01T00:00:00+00:00'' example_db
         example_engineer transit_request 1
       = Inl \<lparr>status_code = 422,
              detail = ''Customer consent required for lab-related transitions''\<rparr>"
proof -
  have h1: "get_job example_db 1 = Some job_without_consent"
    by (simp add: get_job_def example_db_def)
  have h2: "JobStatusUpdateCreate.status transit_request = IN_TRANSIT_TO_LAB"
    by (simp add: transit_request_def)
  have h3: "\<not> RepairJob.customer_consent_for_lab job_without_consent"
    by (simp add: job_without_consent_def)
  have h4: "role example_engineer = ENGINEER
            \<and> engineer_id job_without_consent = Some (uid example_engineer)"
    by (simp add: example_engineer_def job_without_consent_def)
  then have h4': "role example_engineer = ADMIN
                  \<or> role example_engineer = ENGINEER
                    \<and> engineer_id job_without_consent = Some (uid example_engineer)"
    by (rule disjI2)
  have a: "is_transition_allowed (RepairJob.status job_without_consent) IN_TRANSIT_TO_LAB
             (role_value (role example_engineer))"
    by (simp add: is_transition_allowed_def dict_get_def ENGINEER_TRANSITIONS_def
          job_without_consent_def example_engineer_def)
  have r: "update_job_status status_value role_value ''2024-01-01T00:00:00+00:00'' example_db
             example_engineer transit_request 1
           = Inl \<lparr>status_code = 422,
                  detail = ''Customer consent required for lab-related transitions''\<rparr>"
    using lab_transit_requires_consent
            [OF h1 h2 h3 h4', of status_value role_value "''2024-01-01T00:00:00+00:00''"] a
    by (simp only: if_True)
  from h1 h2 h3 h4 a r show ?thesis
    by (simp only: simp_thms)
qed

text \<open>
  Claim C8 as stated, with the consent error for every such request, fails twice over.
  An engineer who is not assigned to the job asks for the move from
  \<open>PENDING_PICKUP_FOR_LAB\<close>, which the engineer table allows: the answer is 403, from the
  assignment guard. An admin asks for the move from \<open>ASSIGNED\<close>, which the admin table
  refuses: the answer is the transition error. Neither answer is the consent error, though
  neither job has the consent.
\<close>

theorem consent_error_not_unconditional:
  "get_job staff_db 1 = Some job_without_consent
   \<and> \<not> RepairJob.customer_consent_for_lab job_without_consent
   \<and> JobStatusUpdateCreate.status transit_request = IN_TRANSIT_TO_LAB
   \<and> is_transition_allowed (RepairJob.status job_without_consent) IN_TRANSIT_TO_LAB
         (role_value (role other_engineer))
   \<and> update_job_status status_value role_value ''2024-01-01T00:00:00+00:00'' staff_db
         other_engineer transit_request 1
       = Inl \<lparr>status_code = 403,
              detail = ''Engineers can only update status for jobs assigned to them''\<rparr>
   \<and> get_job staff_db 3 = Some job_assigned
   \<and> \<not> RepairJob.customer_consent_for_lab job_assigned
   \<and> update_job_status status_value role_value ''2024-01-01T00:00:00+00:00'' staff_db
         example_admin transit_request 3
       = Inl \<lparr>status_code = 422,
              detail = ''Invalid status transition from ASSIGNED to IN_TRANSIT_TO_LAB for ADMIN''\<rparr>
   \<and> update_job_status status_value role_value ''2024-01-01T00:00:00+00:00'' staff_db
         other_engineer transit_request 1
       \<noteq> Inl \<lparr>status_code = 422,
              detail = ''Customer consent required for lab-related transitions''\<rparr>
   \<and> update_job_status status_value role_value ''2024-01-01T00:00:00+00:00'' staff_db
         example_admin transit_request 3
       \<noteq> Inl \<lparr>status_code = 422,
              detail = ''Customer consent required for lab-related transitions''\<rparr>"
  by (simp add: update_job_status_def get_job_def staff_db_def other_engineer_def
        example_admin_def job_without_consent_def job_assigned_def transit_request_def
        is_transition_allowed_def dict_get_def ADMIN_TRANSITIONS_def ENGINEER_TRANSITIONS_def)

text \<open>
  Claim C9. The cancel operation, asked by the job's own customer or by an admin for a job
  whose status is neither \<open>COMPLETED\<close> nor \<open>CANCELLED\<close>, succeeds whatever the current
  status is: the job gets the status \<open>CANCELLED\<close> and the given reason, and one history row
  from the old status to \<open>CANCELLED\<close> is appended. The transition tables are not consulted:
  the example below is a customer cancelling a job in \<open>REPAIR_IN_PROGRESS_LAB\<close>, a move
  that \<open>is_transition_allowed\<close> refuses for a customer.
\<close>

theorem cancel_job_ignores_transition_table:
  assumes "get_job db job_id = Some job"
    and "RepairJob.status job \<noteq> COMPLETED"
    and "RepairJob.status job \<noteq> CANCELLED"
    and "role current_user = CUSTOMER \<and> customer_id job = uid current_user
         \<or> role current_user = ADMIN"
  shows "cancel_job fmt_status db current_user cancellation_data job_id =
           Inr (Some (job\<lparr>RepairJob.status := CANCELLED,
                          cancellation_reason := Some (cancel_reason cancellation_data)\<rparr>),
                db\<lparr>repair_jobs := (repair_jobs db)
                      (job_id \<mapsto> job\<lparr>RepairJob.status := CANCELLED,
                          cancellation_reason := Some (cancel_reason cancellation_data)\<rparr>),
                   job_status_updates := job_status_updates db @
                      [\<lparr>upd_job_id = job_id, upd_user_id = uid current_user,
                        upd_previous_status = RepairJob.status job,
                        upd_new_status = CANCELLED,
                        upd_notes = Some (''Job cancelled: ''
                                            @ cancel_reason cancellation_data)\<rparr>]\<rparr>)"
proof -
  have a: "\<not> (role current_user = CUSTOMER \<and> customer_id job \<noteq> uid current_user)"
    using assms(4) by auto
  have b: "role current_user \<noteq> ENGINEER"
    using assms(4) by auto
  show ?thesis
    using assms(1,2,3) a b
    by (simp add: cancel_job_def crud_job_cancel_job_def record_status_update_def Let_def)
qed

theorem cancel_job_ignores_transition_table_witness:
  "get_job example_db 2 = Some job_in_lab_repair
   \<and> RepairJob.status job_in_lab_repair = REPAIR_IN_PROGRESS_LAB
   \<and> role example_customer = CUSTOMER
   \<and> customer_id job_in_lab_repair = uid example_customer
   \<and> \<not> is_transition_allowed REPAIR_IN_PROGRESS_LAB CANCELLED
           (role_value (role example_customer))
   \<and> cancel_job status_value example_db example_customer
         \<lparr>cancel_reason = ''Changed my mind''\<rparr> 2
       = Inr (Some \<lparr>jid = 2, customer_id = ''cust-1'', engineer_id = Some ''eng-1'',
                    status = CANCELLED, engineer_notes = None, admin_notes = None,
                    customer_consent_for_lab = True,
                    cancellation_reason = Some ''Changed my mind''\<rparr>,
              \<lparr>repair_jobs =
                 [1 \<mapsto> job_without_consent,
                  2 \<mapsto> \<lparr>jid = 2, customer_id = ''cust-1'', engineer_id = Some ''eng-1'',
                         status = CANCELLED, engineer_notes = None, admin_notes = None,
                         customer_consent_for_lab = True,
                         cancellation_reason = Some ''Changed my mind''\<rparr>],
               users = [''cust-1'' \<mapsto> example_customer, ''eng-1'' \<mapsto> example_engineer],
               job_status_updates =
                 [\<lparr>upd_job_id = 2, upd_user_id = ''cust-1'',
                   upd_previous_status = REPAIR_IN_PROGRESS_LAB, upd_new_status = CANCELLED,
                   upd_notes = Some ''Job cancelled: Changed my mind''\<rparr>]\<rparr>)"
proof -
  have h1: "get_job example_db 2 = Some job_in_lab_repair"
    by (simp add: get_job_def example_db_def)
  have st: "RepairJob.status job_in_lab_repair = REPAIR_IN_PROGRESS_LAB"
    by (simp add: job_in_lab_repair_def)
  have h2: "RepairJob.status job_in_lab_repair \<noteq> COMPLETED"
    and h3: "RepairJob.status job_in_lab_repair \<noteq> CANCELLED"
    by (simp_all add: st)
  have h4: "role example_customer = CUSTOMER
            \<and> customer_id job_in_lab_repair = uid example_customer"
    by (simp add: example_customer_def job_in_lab_repair_def)
  then have h4': "role example_customer = CUSTOMER
                    \<and> customer_id job_in_lab_repair = uid example_customer
                  \<or> role example_customer = ADMIN"
    by (rule disjI1)
  have a: "\<not> is_transition_allowed REPAIR_IN_PROGRESS_LAB CANCELLED
               (role_value (role example_customer))"
    by (simp add: is_transition_allowed_def dict_get_def CUSTOMER_TRANSITIONS_def
          example_customer_def)
  have r: "cancel_job status_value example_db example_customer
             \<lparr>cancel_reason = ''Changed my mind''\<rparr> 2
           = Inr (Some \<lparr>jid = 2, customer_id = ''cust-1'', engineer_id = Some ''eng-1'',
                        status = CANCELLED, engineer_notes = None, admin_notes = None,
                        customer_consent_for_lab = True,
                        cancellation_reason = Some ''Changed my mind''\<rparr>,
                  \<lparr>repair_jobs =
                     [1 \<mapsto> job_without_consent,
                      2 \<mapsto> \<lparr>jid = 2, customer_id = ''cust-1'', engineer_id = Some ''eng-1'',
                             status = CANCELLED, engineer_notes = None, admin_notes = None,
                             customer_consent_for_lab = True,
                             cancellation_reason = Some ''Changed my mind''\<rparr>],
                   users = [''cust-1'' \<mapsto> example_customer, ''eng-1'' \<mapsto> example_engineer],
                   job_status_updates =
                     [\<lparr>upd_job_id = 2, upd_user_id = ''cust-1'',
                       upd_previous_status = REPAIR_IN_PROGRESS_LAB,
                       upd_new_status = CANCELLED,
                       upd_notes = Some ''Job cancelled: Changed my mind''\<rparr>]\<rparr>)"
    using cancel_job_ignores_transition_table
            [OF h1 h2 h3 h4', of status_value "\<lparr>cancel_reason = ''Changed my mind''\<rparr>"]
    by (simp add: example_db_def job_in_lab_repair_def example_customer_def)
  from h1 st h4 a r show ?thesis
    by (simp only: simp_thms)
qed

section \<open>The size of the status enumeration\<close>

lemma JobStatus_members_complete: "s \<in> set JobStatus_members"
  by (cases s; simp add: JobStatus_members_def)

lemma JobStatus_members_distinct: "distinct JobStatus_members"
  by (simp add: JobStatus_members_def)

lemma JobStatus_members_length: "length JobStatus_members = 16"
  by (simp add: JobStatus_members_def)

text \<open>
  Claim C10, as amended. \<open>JobStatus\<close> is a closed enumeration of exactly 16 values: its
  members are pairwise different, there are 16 of them, and every status is one of them.
\<close>

theorem JobStatus_has_16_members:
  "distinct JobStatus_members \<and> set JobStatus_members = UNIV
   \<and> length JobStatus_members = 16 \<and> card (UNIV :: JobStatus set) = 16"
proof -
  have u: "set JobStatus_members = UNIV"
    using JobStatus_members_complete by auto
  have "card (set JobStatus_members) = length JobStatus_members"
    using JobStatus_members_distinct by (rule distinct_card)
  with u have "card (UNIV :: JobStatus set) = 16"
    by (simp add: JobStatus_members_length)
  with u show ?thesis
    by (simp add: JobStatus_members_distinct JobStatus_members_length)
qed

text \<open>Claim C10 as stated, with 18 values, fails: the enumeration has not 18 members.\<close>

theorem JobStatus_not_18_members:
  "length JobStatus_members \<noteq> 18 \<and> card (set JobStatus_members) \<noteq> 18"
proof -
  have "card (set JobStatus_members) = length JobStatus_members"
    using JobStatus_members_distinct by (rule distinct_card)
  then show ?thesis
    by (simp add: JobStatus_members_length)
qed

end
